theory Spec2Isabelle
  imports Complex_Main "HOL-Library.Sublist" "HOL-Library.AList" "HOL-Library.Word"
begin

section \<open>Python values shared by the driver and the matcher\<close>

text \<open>
  Exceptions are values. Each constructor is one Python exception class; the string is
  the message the source builds (an f-string is written out as a concatenation).
\<close>

datatype error =
    ValueError string
  | AssertionError string
  | NameError string
  | AttributeError string
  | TypeError string
  | RuntimeError string
  | KeyError string
  | IndexError
  | ZeroDivisionError

text \<open>
  A Python number is an \<open>int\<close> (unbounded) or a \<open>float\<close>. Floats are idealised as
  reals: the driver only divides, multiplies, compares and rounds them up.
\<close>

datatype num = PyInt int | PyFloat real

fun num_val :: "num \<Rightarrow> real" where
  "num_val (PyInt i) = real_of_int i"
| "num_val (PyFloat r) = r"

text \<open>\<open>a - b\<close> for a number \<open>a\<close> and an int \<open>b\<close>: an int stays an int.\<close>

fun num_sub_int :: "num \<Rightarrow> int \<Rightarrow> num" where
  "num_sub_int (PyInt i) b = PyInt (i - b)"
| "num_sub_int (PyFloat r) b = PyFloat (r - real_of_int b)"

text \<open>
  The builtin \<open>min(a, b)\<close> of two arguments returns \<open>a\<close> unless \<open>b < a\<close>; it keeps
  the Python type of the argument it returns.
\<close>

definition py_min :: "num \<Rightarrow> num \<Rightarrow> num" where
  "py_min a b = (if num_val b < num_val a then b else a)"

text \<open>\<open>range(n)\<close>: an int gives \<open>0 .. n-1\<close> (nothing when \<open>n \<le> 0\<close>), a float raises.\<close>

definition py_range :: "num \<Rightarrow> error + nat list" where
  "py_range n = (case n of
       PyInt i \<Rightarrow> Inr [0 ..< nat i]
     | PyFloat r \<Rightarrow> Inl (TypeError ''float object cannot be interpreted as an integer''))"

text \<open>
  \<open>a % b\<close> on ints: the result has the sign of the divisor, as HOL's \<open>mod\<close> on
  \<open>int\<close> has, and a zero divisor raises.
\<close>

definition py_mod :: "int \<Rightarrow> int \<Rightarrow> error + int" where
  "py_mod a b = (if b = 0 then Inl ZeroDivisionError else Inr (a mod b))"

text \<open>\<open>a / b\<close> (true division): a float, and a zero divisor raises.\<close>

definition py_truediv :: "real \<Rightarrow> real \<Rightarrow> error + real" where
  "py_truediv a b = (if b = 0 then Inl ZeroDivisionError else Inr (a / b))"

subsection \<open>Strings\<close>

text \<open>\<open>sub in s\<close> on strings: \<open>sub\<close> occurs in \<open>s\<close> as a contiguous block.\<close>

fun str_contains :: "string \<Rightarrow> string \<Rightarrow> bool" where
  "str_contains [] sub = (sub = [])"
| "str_contains (c # cs) sub = (prefix sub (c # cs) \<or> str_contains cs sub)"

text \<open>
  \<open>s.replace(old, new)\<close>: every non-overlapping occurrence of \<open>old\<close>, scanning from
  the left, becomes \<open>new\<close>. (An empty \<open>old\<close> puts \<open>new\<close> around every character.)
\<close>

function py_replace :: "string \<Rightarrow> string \<Rightarrow> string \<Rightarrow> string" where
  "py_replace [] old new = (if old = [] then new else [])"
| "py_replace (c # cs) old new =
     (if old = [] then new @ c # py_replace cs old new
      else if prefix old (c # cs) then new @ py_replace (drop (length old) (c # cs)) old new
      else c # py_replace cs old new)"
  by pat_completeness auto
termination
  by (relation "measure (\<lambda>(s, old, new). length s)") auto

text \<open>Decimal rendering of an int, as the format \<open>{iteration:d}\<close> writes it.\<close>

function str_nat :: "nat \<Rightarrow> string" where
  "str_nat n = (if n < 10 then [''0123456789'' ! n]
                else str_nat (n div 10) @ [''0123456789'' ! (n mod 10)])"
  by pat_completeness auto
termination
  by (relation "measure id") auto

declare str_nat.simps [simp del]

definition str_int :: "int \<Rightarrow> string" where
  "str_int i = (if i < 0 then CHR ''-'' # str_nat (nat (- i)) else str_nat (nat i))"

text \<open>
  A dict keeps insertion order and one value per key: an association list with
  distinct keys. \<open>d[k] = v\<close> is \<open>AList.update k v d\<close> (an existing key keeps its place,
  a new one goes last), \<open>k in d\<close> is membership in the key list.
\<close>

definition dict_keys :: "('k \<times> 'v) list \<Rightarrow> 'k list" where
  "dict_keys d = map fst d"

definition dict_of_items :: "('k \<times> 'v) list \<Rightarrow> ('k \<times> 'v) list" where
  "dict_of_items kvs = foldl (\<lambda>d (k, v). AList.update k v d) [] kvs"


section \<open>The driver: \<open>SPICEManager\<close> (src/mlreco/manager.py)\<close>

text \<open>
  A module configuration block is a nested dict; only strings, flags, numbers and
  nested blocks occur in it.
\<close>

datatype cfg_val =
    CStr string
  | CBool bool
  | CInt int
  | CNone
  | CDict "(string \<times> cfg_val) list"

text \<open>
  A log record as the logger receives it: the level, the format string and its
  arguments (a string or a list of strings).
\<close>

datatype log_level = Info | Warning | Critical

datatype log_arg = ArgStr string | ArgList "string list"

type_synonym log_entry = "log_level \<times> string \<times> log_arg list"

text \<open>
  The attributes of \<open>self\<close> that the modelled methods read or write. \<open>'t\<close> is the
  type of a parameter tensor and \<open>'o\<close> the optimizer's state; both are opaque to the
  driver. \<open>loader_len\<close> is \<open>len(self.loader)\<close>, \<open>has_writer\<close> is
  \<open>self.writer is not None\<close>, \<open>model_state\<close> is \<open>self.model.state_dict()\<close>.
\<close>

record ('t, 'o) manager =
  main_process :: bool
  distributed :: bool
  world_size :: nat
  train :: bool
  iterations :: "num option"
  epochs :: "num option"
  checkpoint_step :: int
  weight_prefix :: string
  restore_optimizer :: bool
  to_numpy :: bool
  unwrap :: bool
  model_name :: string
  model_cfg :: "(string \<times> cfg_val) list"
  loss_dict :: "(string \<times> string) list option"
  output_keys :: "string list option"
  ignore_keys :: "string list option"
  loader_len :: nat
  has_writer :: bool
  model_state :: "(string \<times> 't) list"
  optimizer :: 'o
  start_iteration :: int
  log :: "log_entry list"

text \<open>The default of \<open>checkpoint_step\<close> in the signature of \<open>process_main\<close>.\<close>

definition checkpoint_step_default :: int where
  "checkpoint_step_default = - 1"

text \<open>
  A checkpoint file holds the three entries \<open>save_state\<close> writes. The file system is
  the set of checkpoint files by path, and what \<open>glob.glob\<close> answers for a pattern.
\<close>

record ('t, 'o) checkpoint =
  global_step :: int
  state_dict :: "(string \<times> 't) list"
  optimizer_state :: 'o

record ('t, 'o) filesys =
  files :: "string \<Rightarrow> ('t, 'o) checkpoint option"
  glob :: "string \<Rightarrow> string list"

definition isfile :: "('t, 'o) filesys \<Rightarrow> string \<Rightarrow> bool" where
  "isfile fs p = (files fs p \<noteq> None)"

subsection \<open>\<open>process_model\<close>: the allow-list and the deny-list\<close>

text \<open>Truth value of an optional list: \<open>None\<close> and the empty list are false.\<close>

fun truthy :: "'a list option \<Rightarrow> bool" where
  "truthy None = False"
| "truthy (Some xs) = (xs \<noteq> [])"

text \<open>Lines 232-236: the assertion, then the two attributes are stored.\<close>

definition process_model ::
  "('t, 'o) manager \<Rightarrow> string list option \<Rightarrow> string list option \<Rightarrow> error + ('t, 'o) manager" where
  "process_model m keep_output ignore =
     (if truthy keep_output \<and> truthy ignore
      then Inl (AssertionError ''Should not specify `keep_output` and `ignore_keys` together.'')
      else Inr (m\<lparr>output_keys := keep_output, ignore_keys := ignore\<rparr>))"

subsection \<open>\<open>process_io\<close>: epochs from iterations or the reverse\<close>

text \<open>
  Lines 256-264 and 274-280, for a loader of \<open>n\<close> batches. \<open>world_size\<close> is at least
  1 (\<open>process_main\<close> takes a maximum with 1), so the first division cannot fail.
\<close>

definition process_io ::
  "('t, 'o) manager \<Rightarrow> nat \<Rightarrow> bool \<Rightarrow> error + ('t, 'o) manager" where
  "process_io m n writer =
     (let iter_per_epoch = real n / real (world_size m);
          budget =
            (case iterations m of
               Some its \<Rightarrow>
                 (if num_val its < 0 then Inr (m\<lparr>loader_len := n, epochs := Some (PyInt 1)\<rparr>)
                  else (case py_truediv (num_val its) iter_per_epoch of
                          Inl e \<Rightarrow> Inl e
                        | Inr q \<Rightarrow> Inr (m\<lparr>loader_len := n, epochs := Some (PyFloat q)\<rparr>)))
             | None \<Rightarrow>
                 (case epochs m of
                    None \<Rightarrow> Inl (TypeError ''unsupported operand type(s) for *: NoneType and float'')
                  | Some ep \<Rightarrow>
                      Inr (m\<lparr>loader_len := n,
                             iterations := Some (PyFloat (num_val ep * iter_per_epoch))\<rparr>)))
      in case budget of
           Inl e \<Rightarrow> Inl e
         | Inr m' \<Rightarrow>
             (if writer \<and> \<not> unwrap m'
              then Inl (ValueError ''Must set `unwrap` to True when writing to file'')
              else Inr (m'\<lparr>has_writer := writer\<rparr>)))"

subsection \<open>\<open>save_state\<close>\<close>

definition ckpt_name :: "string \<Rightarrow> int \<Rightarrow> string" where
  "ckpt_name pre iteration = pre @ ''-'' @ str_int iteration @ ''.ckpt''"

definition save_state ::
  "('t, 'o) manager \<Rightarrow> ('t, 'o) filesys \<Rightarrow> int \<Rightarrow> error + ('t, 'o) filesys" where
  "save_state m fs iteration =
     (if weight_prefix m = [] then Inl (AssertionError ''Must provide a weight prefix to store them'')
      else Inr (fs\<lparr>files := (files fs)(ckpt_name (weight_prefix m) iteration \<mapsto>
                  \<lparr>global_step = iteration, state_dict = model_state m,
                   optimizer_state = optimizer m\<rparr>)\<rparr>))"

subsection \<open>\<open>load_weights\<close>\<close>

text \<open>
  \<open>self.model.load_state_dict(state_dict, strict=False)\<close> belongs to the tensor
  library. Its contract: every parameter of the model that the dict names takes the
  dict's value, the others keep theirs, and the keys of the dict that name no
  parameter are returned as unexpected. (Tensor shapes are not modelled.)
\<close>

definition load_state_dict ::
  "(string \<times> 't) list \<Rightarrow> (string \<times> 't) list \<Rightarrow> (string \<times> 't) list \<times> string list" where
  "load_state_dict model sd =
     (map (\<lambda>(n, v). (n, case map_of sd n of None \<Rightarrow> v | Some w \<Rightarrow> w)) model,
      filter (\<lambda>k. k \<notin> set (dict_keys model)) (dict_keys sd))"

text \<open>Lines 442-443: \<open>{k.replace('module.', ''): v for k, v in state_dict.items()}\<close>.\<close>

definition strip_module :: "(string \<times> 't) list \<Rightarrow> (string \<times> 't) list" where
  "strip_module sd = dict_of_items (map (\<lambda>(k, v). (py_replace k ''module.'' [], v)) sd)"

text \<open>Lines 448-450: the names of the model that the dict does not have.\<close>

definition missing_top :: "(string \<times> 't) list \<Rightarrow> (string \<times> 't) list \<Rightarrow> (string \<times> string) list" where
  "missing_top model sd =
     map (\<lambda>name. (name, name)) (filter (\<lambda>name. name \<notin> set (dict_keys sd)) (dict_keys model))"

text \<open>
  Lines 453-461, one round of the loop over the names of the model. The key is looked
  up in \<open>checkpoint['state_dict']\<close> as stored (\<open>raw\<close>), not in the dict whose
  \<open>module.\<close> prefixes were removed.
\<close>

definition submodule_key :: "string \<Rightarrow> string \<Rightarrow> string \<Rightarrow> string" where
  "submodule_key mname store_name name =
     py_replace name (''.'' @ mname @ ''.'') (''.'' @ store_name @ ''.'')"

definition remap_step ::
  "string \<Rightarrow> string \<Rightarrow> (string \<times> 't) list
     \<Rightarrow> (string \<times> 't) list \<times> (string \<times> string) list \<Rightarrow> string
     \<Rightarrow> (string \<times> 't) list \<times> (string \<times> string) list" where
  "remap_step mname store_name raw acc name =
     (if str_contains name mname
      then (case map_of raw (submodule_key mname store_name name) of
              Some v \<Rightarrow> (AList.update name v (fst acc), snd acc)
            | None \<Rightarrow> (fst acc, snd acc @ [(name, submodule_key mname store_name name)]))
      else acc)"

definition remap_submodule ::
  "string \<Rightarrow> string \<Rightarrow> (string \<times> 't) list \<Rightarrow> (string \<times> 't) list
     \<Rightarrow> (string \<times> 't) list \<times> (string \<times> string) list" where
  "remap_submodule mname store_name raw model =
     foldl (remap_step mname store_name raw) ([], []) (dict_keys model)"

text \<open>
  Lines 439-461 together: the dict to load and the list \<open>missing_keys\<close>, for the
  checkpoint's stored dict \<open>raw\<close>.
\<close>

definition needed_weights ::
  "('t, 'o) manager \<Rightarrow> string \<Rightarrow> string \<Rightarrow> (string \<times> 't) list
     \<Rightarrow> (string \<times> 't) list \<times> (string \<times> string) list" where
  "needed_weights m mname store_name raw =
     (let sd = (if \<not> distributed m then strip_module raw else raw)
      in if mname = model_name m then (sd, missing_top (model_state m) sd)
         else remap_submodule mname store_name raw (model_state m))"

text \<open>The records lines 465-469 log, one per missing parameter after a heading.\<close>

definition missing_report :: "(string \<times> string) list \<Rightarrow> log_entry list" where
  "missing_report missing_keys =
     (Critical, ''These necessary parameters could not be found:'', [])
     # map (\<lambda>(name, key). (Critical, ''Parameter %s is missing for %s.'', [ArgStr key, ArgStr name]))
         missing_keys"

text \<open>
  Lines 423-493, the body of the loop for one entry \<open>(module, model_path, model_name)\<close>
  of \<open>model_paths\<close>. The manager comes back as the body left it, with the exception
  raised, if any. \<open>continue\<close> is the return of the unchanged manager.
\<close>

definition load_module ::
  "('t, 'o) filesys \<Rightarrow> ('t, 'o) manager \<Rightarrow> string \<times> string \<times> string
     \<Rightarrow> ('t, 'o) manager \<times> error option" where
  "load_module fs m entry =
     (case entry of (mname, model_path, store_name) \<Rightarrow>
      (case files fs model_path of
         None \<Rightarrow>
           (if \<not> train m \<and> glob fs model_path \<noteq> [] then (m, None)
            else (m, Some (ValueError
                   (''Weight file not found for module '' @ mname @ '': '' @ model_path))))
       | Some ckpt \<Rightarrow>
           (let m1 = m\<lparr>log := log m @ [(Info, ''Restoring weights for module %s from %s...'',
                                         [ArgStr mname, ArgStr model_path])]\<rparr>;
                needed = needed_weights m mname store_name (state_dict ckpt)
            in if snd needed \<noteq> []
               then (m1\<lparr>log := log m1 @ missing_report (snd needed)\<rparr>,
                     Some (ValueError
                       ''To be loaded, a set of weights must provide all necessary parameters.''))
               else
                 (let loaded = load_state_dict (model_state m1) (fst needed);
                      m2 = m1\<lparr>model_state := fst loaded,
                              log := log m1 @
                                (if snd loaded \<noteq> []
                                 then [(Warning, ''This weight file contains parameters that could not be loaded, indicating that the weight file contains more than needed. This might be ok.'', []),
                                       (Warning, ''Unexpected keys: %s'', [ArgList (snd loaded)])]
                                 else [])\<rparr>;
                      m3 = (if train m \<and> mname = model_name m \<and> restore_optimizer m
                            then m2\<lparr>optimizer := optimizer_state ckpt\<rparr> else m2);
                      m4 = (if mname = model_name m
                            then m3\<lparr>start_iteration := global_step ckpt + 1\<rparr> else m3)
                  in (m4\<lparr>log := log m4 @ [(Info, ''Done.'', [])]\<rparr>, None)))))"

text \<open>\<open>for module, model_path, model_name in model_paths\<close>.\<close>

fun load_modules ::
  "('t, 'o) filesys \<Rightarrow> (string \<times> string \<times> string) list \<Rightarrow> ('t, 'o) manager
     \<Rightarrow> ('t, 'o) manager \<times> error option" where
  "load_modules fs [] m = (m, None)"
| "load_modules fs (entry # rest) m =
     (case load_module fs m entry of
        (m', Some e) \<Rightarrow> (m', Some e)
      | (m', None) \<Rightarrow> load_modules fs rest m')"

text \<open>
  Lines 407-415: the search of the configuration for \<open>model_path\<close> entries. The work
  list is a stack (\<open>pop()\<close> takes the last item). A block is a dict; \<open>config.get\<close> on
  anything else raises. A \<open>model_path\<close> or \<open>model_name\<close> that is not a string is
  reported as a \<open>TypeError\<close> here (the configuration schema has strings there).
\<close>

fun is_dict :: "cfg_val \<Rightarrow> bool" where
  "is_dict (CDict d) = True"
| "is_dict v = False"

definition path_entry ::
  "string \<Rightarrow> (string \<times> cfg_val) list \<Rightarrow> error + (string \<times> string \<times> string) list" where
  "path_entry mname config =
     (case map_of config ''model_path'' of
        None \<Rightarrow> Inr []
      | Some (CStr p) \<Rightarrow>
          (if p = [] then Inr []
           else (case map_of config ''model_name'' of
                   None \<Rightarrow> Inr [(mname, p, mname)]
                 | Some (CStr n) \<Rightarrow> Inr [(mname, p, n)]
                 | Some v \<Rightarrow> Inl (TypeError ''model_name is not a string'')))
      | Some v \<Rightarrow> Inl (TypeError ''model_path is not a string''))"

function find_model_paths ::
  "(string \<times> cfg_val) list \<Rightarrow> (string \<times> string \<times> string) list
     \<Rightarrow> error + (string \<times> string \<times> string) list" where
  "find_model_paths module_items model_paths =
     (if module_items = [] then Inr model_paths
      else (case last module_items of
              (mname, CDict config) \<Rightarrow>
                (case path_entry mname config of
                   Inl e \<Rightarrow> Inl e
                 | Inr found \<Rightarrow>
                     find_model_paths (butlast module_items @ filter (\<lambda>kv. is_dict (snd kv)) config)
                       (model_paths @ found))
            | (mname, v) \<Rightarrow> Inl (AttributeError ''object has no attribute get'')))"
  by pat_completeness auto
termination
  apply (relation "measure (\<lambda>(items, acc). size_list (size_prod (\<lambda>k. 0) size) items)")
   apply simp
  apply simp
  subgoal premises prems for module_items x y config b
  proof -
    have filt: "size_list f (filter P xs) \<le> size_list f xs"
      for f :: "string \<times> cfg_val \<Rightarrow> nat" and P xs
      by (induction xs) auto
    have "module_items = butlast module_items @ [(x, CDict config)]"
      using prems(1,2) by (metis append_butlast_last_id)
    then have "size_list (size_prod (\<lambda>k. 0) size) module_items
        = size_list (size_prod (\<lambda>k. 0) size) (butlast module_items)
          + size_list (size_prod (\<lambda>k. 0) size) [(x, CDict config)]"
      by (metis size_list_append)
    moreover have "size_list (size_prod (\<lambda>k. 0) size) (filter (\<lambda>kv. is_dict (snd kv)) config)
        < size_list (size_prod (\<lambda>k. 0) size) [(x, CDict config)]"
      using filt[of "size_prod (\<lambda>k. 0) size" "\<lambda>kv. is_dict (snd kv)" config] by simp
    ultimately show ?thesis by linarith
  qed
  done

declare find_model_paths.simps [simp del]

text \<open>
  \<open>load_weights(full_model_path)\<close>: the path of the whole model first (under the
  model's own name), then the paths found in the configuration.
\<close>

definition load_weights ::
  "('t, 'o) filesys \<Rightarrow> ('t, 'o) manager \<Rightarrow> string option \<Rightarrow> ('t, 'o) manager \<times> error option" where
  "load_weights fs m full_model_path =
     (let first = (case full_model_path of
                     None \<Rightarrow> []
                   | Some p \<Rightarrow> (if p = [] then [] else [(model_name m, p, [])]))
      in case find_model_paths (model_cfg m) first of
           Inl e \<Rightarrow> (m, Some e)
         | Inr model_paths \<Rightarrow>
             (if model_paths = [] then (m\<lparr>start_iteration := 0\<rparr>, None)
              else load_modules fs model_paths (m\<lparr>start_iteration := 0\<rparr>)))"






text \<open>
  Saving at iteration \<open>k\<close>, then loading the file just written into a model whose
  parameters have been initialised afresh (\<open>fresh\<close>).
\<close>

definition save_then_load ::
  "('t, 'o) manager \<Rightarrow> ('t, 'o) filesys \<Rightarrow> int \<Rightarrow> (string \<times> 't) list
     \<Rightarrow> ('t, 'o) manager \<times> error option" where
  "save_then_load m fs k fresh =
     (case save_state m fs k of
        Inl e \<Rightarrow> (m, Some e)
      | Inr fs' \<Rightarrow>
          load_weights fs' (m\<lparr>model_state := fresh\<rparr>) (Some (ckpt_name (weight_prefix m) k)))"

subsection \<open>\<open>run\<close>: the epoch and iteration loops\<close>

text \<open>
  What one pass of the loop body does, in order. \<open>train_step\<close> (the forward and
  backward passes) is opaque: it is a parameter \<open>tstep\<close> that returns the model
  parameters and the optimizer state it leaves behind (it writes no other attribute
  modelled here).
\<close>

datatype event = TrainStep int | SaveState int | WriteOut int | LogRecord int

record ('t, 'o) run_state =
  rs_manager :: "('t, 'o) manager"
  rs_files :: "('t, 'o) filesys"
  rs_trace :: "event list"
  rs_iteration :: int

text \<open>Line 555: \<open>save_step = ((iteration + 1) % self.checkpoint_step) == 0\<close>.\<close>

definition save_step :: "int \<Rightarrow> int \<Rightarrow> error + bool" where
  "save_step iteration cstep =
     (case py_mod (iteration + 1) cstep of Inl e \<Rightarrow> Inl e | Inr r \<Rightarrow> Inr (r = 0))"

text \<open>Lines 545-573, one iteration; the error, if any, comes with the state reached.\<close>

definition run_iteration ::
  "(('t, 'o) manager \<Rightarrow> int \<Rightarrow> (string \<times> 't) list \<times> 'o) \<Rightarrow> ('t, 'o) run_state
     \<Rightarrow> ('t, 'o) run_state \<times> error option" where
  "run_iteration tstep s =
     (let it = rs_iteration s;
          m = (rs_manager s)\<lparr>model_state := fst (tstep (rs_manager s) it),
                              optimizer := snd (tstep (rs_manager s) it)\<rparr>;
          s1 = s\<lparr>rs_manager := m, rs_trace := rs_trace s @ [TrainStep it]\<rparr>
      in case save_step it (checkpoint_step m) of
           Inl e \<Rightarrow> (s1, Some e)
         | Inr b \<Rightarrow>
             (case (if train m \<and> b \<and> main_process m
                    then (case save_state m (rs_files s1) it of
                            Inl e \<Rightarrow> Inl e
                          | Inr fs' \<Rightarrow>
                              Inr (s1\<lparr>rs_files := fs', rs_trace := rs_trace s1 @ [SaveState it]\<rparr>))
                    else Inr s1) of
                Inl e \<Rightarrow> (s1, Some e)
              | Inr s2 \<Rightarrow>
                  (s2\<lparr>rs_trace := rs_trace s2
                         @ (if has_writer m then [WriteOut it] else []) @ [LogRecord it],
                       rs_iteration := it + 1\<rparr>, None)))"

text \<open>\<open>for _ in range(n_iterations)\<close>, after \<open>range\<close> has been evaluated to \<open>n\<close> rounds.\<close>

fun run_iterations ::
  "(('t, 'o) manager \<Rightarrow> int \<Rightarrow> (string \<times> 't) list \<times> 'o) \<Rightarrow> nat \<Rightarrow> ('t, 'o) run_state
     \<Rightarrow> ('t, 'o) run_state \<times> error option" where
  "run_iterations tstep 0 s = (s, None)"
| "run_iterations tstep (Suc n) s =
     (case run_iteration tstep s of
        (s', Some e) \<Rightarrow> (s', Some e)
      | (s', None) \<Rightarrow> run_iterations tstep n s')"

text \<open>
  Lines 541-544 for epoch \<open>e\<close>:
  \<open>n_iterations = min(self.iterations - e*len(self.loader), len(self.loader))\<close>.
\<close>

definition n_iterations :: "('t, 'o) manager \<Rightarrow> nat \<Rightarrow> error + nat" where
  "n_iterations m e =
     (case iterations m of
        None \<Rightarrow> Inl (TypeError ''unsupported operand type(s) for -: NoneType and int'')
      | Some its \<Rightarrow>
          (case py_range (py_min (num_sub_int its (int e * int (loader_len m)))
                                 (PyInt (int (loader_len m)))) of
             Inl err \<Rightarrow> Inl err
           | Inr rounds \<Rightarrow> Inr (length rounds)))"

fun run_epochs ::
  "(('t, 'o) manager \<Rightarrow> int \<Rightarrow> (string \<times> 't) list \<times> 'o) \<Rightarrow> nat list \<Rightarrow> ('t, 'o) run_state
     \<Rightarrow> ('t, 'o) run_state \<times> error option" where
  "run_epochs tstep [] s = (s, None)"
| "run_epochs tstep (e # es) s =
     (case n_iterations (rs_manager s) e of
        Inl err \<Rightarrow> (s, Some err)
      | Inr n \<Rightarrow>
          (case run_iterations tstep n s of
             (s', Some err) \<Rightarrow> (s', Some err)
           | (s', None) \<Rightarrow> run_epochs tstep es s'))"

text \<open>Lines 533-537, then the loops.\<close>

definition run ::
  "(('t, 'o) manager \<Rightarrow> int \<Rightarrow> (string \<times> 't) list \<times> 'o) \<Rightarrow> ('t, 'o) manager \<Rightarrow> ('t, 'o) filesys
     \<Rightarrow> ('t, 'o) run_state \<times> error option" where
  "run tstep m fs =
     (let iter_per_epoch = real (loader_len m) / real (world_size m);
          iteration = (if train m then start_iteration m else 0);
          s = \<lparr>rs_manager = m, rs_files = fs, rs_trace = [], rs_iteration = iteration\<rparr>
      in case epochs m of
           None \<Rightarrow> (s, Some (TypeError ''unsupported operand type(s) for -: NoneType and float''))
         | Some ep \<Rightarrow>
             (case py_truediv (real_of_int iteration) iter_per_epoch of
                Inl e \<Rightarrow> (s, Some e)
              | Inr q \<Rightarrow> run_epochs tstep [0 ..< nat \<lceil>num_val ep - q\<rceil>] s))"

text \<open>The iterations the loop ran, and those at which it saved a checkpoint.\<close>

definition stepped :: "event list \<Rightarrow> int list" where
  "stepped tr = concat (map (\<lambda>ev. case ev of TrainStep i \<Rightarrow> [i] | _ \<Rightarrow> []) tr)"

definition saved :: "event list \<Rightarrow> int list" where
  "saved tr = concat (map (\<lambda>ev. case ev of SaveState i \<Rightarrow> [i] | _ \<Rightarrow> []) tr)"

subsection \<open>\<open>step\<close>: filtering and casting the output\<close>

text \<open>
  The values a forward or loss output maps a key to. A scalar is what \<open>np.isscalar\<close>
  accepts; a tensor is given by its elements (\<open>numel\<close> is their number); the three
  batch classes carry data \<open>'b\<close> that is backed by the tensor library or, after
  \<open>to_numpy()\<close>, by numpy; anything else (a dict, \<open>None\<close>, ...) is \<open>Other\<close>.
\<close>

datatype backing = TorchData | NumpyData

datatype 'b pyval =
    Scalar num
  | Tensor "num list"
  | TensorBatch backing 'b
  | IndexBatch backing 'b
  | EdgeIndexBatch backing 'b
  | PyList "'b pyval list"
  | Other

text \<open>\<open>v.to_numpy()\<close>: a method of the three batch classes only.\<close>

fun to_numpy_method :: "'b pyval \<Rightarrow> error + 'b pyval" where
  "to_numpy_method (TensorBatch bk d) = Inr (TensorBatch NumpyData d)"
| "to_numpy_method (IndexBatch bk d) = Inr (IndexBatch NumpyData d)"
| "to_numpy_method (EdgeIndexBatch bk d) = Inr (EdgeIndexBatch NumpyData d)"
| "to_numpy_method v = Inl (AttributeError ''object has no attribute to_numpy'')"

text \<open>\<open>[v.to_numpy() for v in value]\<close>: the first element that fails raises.\<close>

fun to_numpy_all :: "'b pyval list \<Rightarrow> error + 'b pyval list" where
  "to_numpy_all [] = Inr []"
| "to_numpy_all (v # vs) =
     (case to_numpy_method v of
        Inl e \<Rightarrow> Inl e
      | Inr w \<Rightarrow> (case to_numpy_all vs of Inl e \<Rightarrow> Inl e | Inr ws \<Rightarrow> Inr (w # ws)))"

definition cannot_cast :: "string \<Rightarrow> error" where
  "cannot_cast key = ValueError (''Cannot cast output '' @ key @ '' to numpy'')"

text \<open>Lines 723-740, the chain of tests on one value, in the order of the source.\<close>

fun cast_output :: "string \<Rightarrow> 'b pyval \<Rightarrow> error + 'b pyval" where
  "cast_output key (Scalar x) = Inr (Scalar x)"
| "cast_output key (Tensor xs) =
     (case xs of [x] \<Rightarrow> Inr (Scalar x) | _ \<Rightarrow> Inl (cannot_cast key))"
| "cast_output key (TensorBatch bk d) = to_numpy_method (TensorBatch bk d)"
| "cast_output key (IndexBatch bk d) = to_numpy_method (IndexBatch bk d)"
| "cast_output key (EdgeIndexBatch bk d) = to_numpy_method (EdgeIndexBatch bk d)"
| "cast_output key (PyList vs) =
     (case vs of
        TensorBatch bk d # rest \<Rightarrow>
          (case to_numpy_all vs of Inl e \<Rightarrow> Inl e | Inr ws \<Rightarrow> Inr (PyList ws))
      | _ \<Rightarrow> Inl (cannot_cast key))"
| "cast_output key Other = Inl (cannot_cast key)"


text \<open>
  Lines 717-718: the key is not to be output. \<open>self.output_keys\<close> and
  \<open>self.ignore_keys\<close> are a list or \<open>None\<close>.
\<close>

fun opt_list :: "'a list option \<Rightarrow> 'a list" where
  "opt_list None = []"
| "opt_list (Some xs) = xs"

definition filtered :: "('t, 'o) manager \<Rightarrow> string \<Rightarrow> bool" where
  "filtered m key =
     ((truthy (output_keys m) \<and> key \<notin> set (opt_list (output_keys m)))
      \<or> (truthy (ignore_keys m) \<and> key \<in> set (opt_list (ignore_keys m))))"

text \<open>
  What a call can end with. The loop of lines 715-740 iterates over \<open>result.items()\<close>
  and changes \<open>result\<close> in its body. When a key is popped and nothing is put back
  (\<open>to_numpy\<close> off), the dict has shrunk and the iterator raises \<open>RuntimeError\<close> at its
  next step, also when that step would have ended the loop. When the key is popped and
  then assigned again (\<open>to_numpy\<close> on), the size is as before and the iterator does
  not notice; the key now sits behind the iterator's position and what the rest of the
  iteration visits depends on the interpreter's dict layout. The language leaves this
  undefined, and the model stops there with \<open>Undefined_Iteration\<close>.
\<close>

datatype 'a outcome = Returns 'a | Raises error | Undefined_Iteration

text \<open>
  The loop, over the items still to visit; \<open>result\<close> is the dict as changed so far.
  There is no \<open>continue\<close> after the pop: the cast of a popped key's value is still
  attempted.
\<close>

fun step_loop ::
  "('t, 'o) manager \<Rightarrow> (string \<times> 'b pyval) list \<Rightarrow> (string \<times> 'b pyval) list
     \<Rightarrow> (string \<times> 'b pyval) list outcome" where
  "step_loop m [] result = Returns result"
| "step_loop m ((key, value) # rest) result =
     (let popped = (if filtered m key then AList.delete key result else result)
      in if to_numpy m
         then (case cast_output key value of
                 Inl e \<Rightarrow> Raises e
               | Inr w \<Rightarrow>
                   (if filtered m key then Undefined_Iteration
                    else step_loop m rest (AList.update key w popped)))
         else (if filtered m key
               then Raises (RuntimeError ''dictionary changed size during iteration'')
               else step_loop m rest popped))"

text \<open>
  Lines 699-712. The model and the loss function are opaque: \<open>fwd\<close> is what
  \<open>self.model(**input_dict)\<close> returned and \<open>loss_out\<close> what the loss function returned.
  In train mode \<open>result['loss']\<close> is read (and kept for the backward pass).
\<close>

definition forward_result ::
  "('t, 'o) manager \<Rightarrow> (string \<times> 'b pyval) list \<Rightarrow> (string \<times> 'b pyval) list
     \<Rightarrow> error + (string \<times> 'b pyval) list" where
  "forward_result m fwd loss_out =
     (if truthy (loss_dict m)
      then (let result = foldl (\<lambda>d (k, v). AList.update k v d) fwd loss_out
            in if train m \<and> map_of result ''loss'' = None then Inl (KeyError ''loss'')
               else Inr result)
      else Inr fwd)"

definition step ::
  "('t, 'o) manager \<Rightarrow> (string \<times> 'b pyval) list \<Rightarrow> (string \<times> 'b pyval) list
     \<Rightarrow> (string \<times> 'b pyval) list outcome" where
  "step m fwd loss_out =
     (case forward_result m fwd loss_out of
        Inl e \<Rightarrow> Raises e
      | Inr result \<Rightarrow> step_loop m result result)"

subsection \<open>\<open>write\<close>: gathering the outputs of all processes\<close>

text \<open>
  A scalar as numpy reduces it: an int is a 64-bit signed integer (numpy's default
  integer, whose sums wrap around), a float is idealised as a real.
\<close>

datatype np_scalar = NpInt "64 word" | NpFloat real

fun np_val :: "np_scalar \<Rightarrow> real" where
  "np_val (NpInt w) = real_of_int (sint w)"
| "np_val (NpFloat r) = r"

text \<open>The ints of a list of scalars, when all of them are ints.\<close>

fun np_ints :: "np_scalar list \<Rightarrow> 64 word list option" where
  "np_ints [] = Some []"
| "np_ints (NpInt w # xs) = map_option (Cons w) (np_ints xs)"
| "np_ints (NpFloat r # xs) = None"

text \<open>
  \<open>np.sum\<close> of scalars is an int when all are ints (added in 64 bits) and a float
  otherwise; \<open>np.mean\<close> is a float.
\<close>

definition np_sum :: "np_scalar list \<Rightarrow> np_scalar" where
  "np_sum xs = (case np_ints xs of
                  Some ws \<Rightarrow> NpInt (sum_list ws)
                | None \<Rightarrow> NpFloat (sum_list (map np_val xs)))"

definition np_mean :: "np_scalar list \<Rightarrow> np_scalar" where
  "np_mean xs = NpFloat (sum_list (map np_val xs) / real (length xs))"

text \<open>
  What a data or result key maps to once the output has been cast and unwrapped: a
  scalar, an array (given by its rows along the first axis), a list, or something
  else. \<open>GNone\<close> is the \<open>None\<close> a process other than the coordinating one is left
  with after the gather.
\<close>

datatype 'a gval = GScalar np_scalar | GArray "'a list" | GList "'a list" | GNone | GOther

text \<open>The values of a gathered list, when all of them have the shape asked for.\<close>

fun scalars_of :: "'a gval list \<Rightarrow> np_scalar list option" where
  "scalars_of [] = Some []"
| "scalars_of (GScalar x # vs) = map_option (Cons x) (scalars_of vs)"
| "scalars_of (v # vs) = None"

text \<open>
  The rows of a gathered list of arrays or lists. \<open>np.concatenate\<close> takes arrays,
  and lists as arrays; \<open>extend\<close> takes lists, and arrays row by row; with a scalar or
  \<open>None\<close> among the values both raise.
\<close>

fun rows_of :: "'a gval list \<Rightarrow> 'a list list option" where
  "rows_of [] = Some []"
| "rows_of (GArray a # vs) = map_option (Cons a) (rows_of vs)"
| "rows_of (GList a # vs) = map_option (Cons a) (rows_of vs)"
| "rows_of (v # vs) = None"

text \<open>
  Lines 812-819 (and 825-832, the same for the results): the merge of the gathered
  list \<open>data_v\<close> of the key \<open>k\<close>, chosen by the shape of its first entry. \<open>None\<close> means
  that no branch applies and the key is not set.
\<close>

definition merge_gathered :: "string \<Rightarrow> 'a gval list \<Rightarrow> error + 'a gval option" where
  "merge_gathered k data_v =
     (case data_v of
        [] \<Rightarrow> Inl IndexError
      | GScalar x # rest \<Rightarrow>
          (case scalars_of data_v of
             None \<Rightarrow> Inl (TypeError ''cannot reduce values of different shapes'')
           | Some xs \<Rightarrow>
               Inr (Some (GScalar (if \<not> str_contains k ''count'' then np_mean xs else np_sum xs))))
      | GArray a # rest \<Rightarrow>
          (case rows_of data_v of
             None \<Rightarrow> Inl (ValueError ''zero-dimensional arrays cannot be concatenated'')
           | Some rows \<Rightarrow> Inr (Some (GArray (concat rows))))
      | GList a # rest \<Rightarrow>
          (case rows_of data_v of
             None \<Rightarrow> Inl (TypeError ''object is not iterable'')
           | Some rows \<Rightarrow> Inr (Some (GList (concat rows))))
      | _ \<Rightarrow> Inr None)"

text \<open>The value of the key \<open>k\<close> on every rank, in rank order, when every rank has it.\<close>

definition column :: "(string \<times> 'a gval) list list \<Rightarrow> string \<Rightarrow> 'a gval list option" where
  "column ranks k = those (map (\<lambda>d. map_of d k) ranks)"

text \<open>
  \<open>torch.distributed.gather_object\<close>: the coordinating process receives the value of
  every rank, in rank order; the others keep the list of \<open>None\<close>. A rank whose dict
  lacks the key raises.
\<close>

definition gather_object ::
  "('t, 'o) manager \<Rightarrow> string \<Rightarrow> (string \<times> 'a gval) list list \<Rightarrow> error + 'a gval list" where
  "gather_object m k ranks =
     (case column ranks k of
        None \<Rightarrow> Inl (KeyError k)
      | Some vs \<Rightarrow> Inr (if main_process m then vs else replicate (world_size m) GNone))"

text \<open>The loop over the stored keys, filling the dict \<open>acc\<close>.\<close>

fun aggregate ::
  "('t, 'o) manager \<Rightarrow> string list \<Rightarrow> (string \<times> 'a gval) list list
     \<Rightarrow> (string \<times> 'a gval) list \<Rightarrow> error + (string \<times> 'a gval) list" where
  "aggregate m [] ranks acc = Inr acc"
| "aggregate m (k # ks) ranks acc =
     (case gather_object m k ranks of
        Inl e \<Rightarrow> Inl e
      | Inr data_v \<Rightarrow>
          (case merge_gathered k data_v of
             Inl e \<Rightarrow> Inl e
           | Inr None \<Rightarrow> aggregate m ks ranks acc
           | Inr (Some v) \<Rightarrow> aggregate m ks ranks (AList.update k v acc)))"

text \<open>
  \<open>write(data, result)\<close> (named \<open>write_output\<close> here): what is handed to
  \<open>self.writer.append\<close>. The writer is opaque: \<open>data_keys\<close> and \<open>result_keys\<close> are
  what its \<open>get_stored_keys\<close> answers, \<open>data\<close> and \<open>result\<close> are this process's
  dicts, \<open>all_data\<close> and \<open>all_result\<close> those of every rank in rank order.
\<close>

definition write_output ::
  "('t, 'o) manager \<Rightarrow> string list \<Rightarrow> string list
     \<Rightarrow> (string \<times> 'a gval) list \<Rightarrow> (string \<times> 'a gval) list
     \<Rightarrow> (string \<times> 'a gval) list list \<Rightarrow> (string \<times> 'a gval) list list
     \<Rightarrow> error + (string \<times> 'a gval) list \<times> (string \<times> 'a gval) list" where
  "write_output m data_keys result_keys data result all_data all_result =
     (if \<not> distributed m then Inr (data, result)
      else (case aggregate m data_keys all_data [] of
              Inl e \<Rightarrow> Inl e
            | Inr data_dict \<Rightarrow>
                (case aggregate m result_keys all_result [] of
                   Inl e \<Rightarrow> Inl e
                 | Inr result_dict \<Rightarrow> Inr (data_dict, result_dict))))"






text \<open>
  The state \<open>run\<close> keeps when every iteration it ran was followed by a checkpoint
  written under the prefix \<open>p\<close>, in train mode on the coordinating process with the
  cadence \<open>-1\<close>.
\<close>

definition every_step_saved :: "string \<Rightarrow> ('t, 'o) run_state \<Rightarrow> bool" where
  "every_step_saved p s =
     (train (rs_manager s) \<and> main_process (rs_manager s)
      \<and> checkpoint_step (rs_manager s) = - 1 \<and> weight_prefix (rs_manager s) = p
      \<and> saved (rs_trace s) = stepped (rs_trace s)
      \<and> list_all (\<lambda>i. files (rs_files s) (ckpt_name p i) \<noteq> None) (stepped (rs_trace s)))"

subsection \<open>Concrete runs\<close>

text \<open>
  A training run of 3 iterations over a loader of 4 batches on one process, with the
  default checkpoint cadence; an empty file system; a train step that leaves the
  parameters as they are.
\<close>

definition demo_manager :: "(nat, nat) manager" where
  "demo_manager = \<lparr>main_process = True, distributed = False, world_size = 1, train = True,
     iterations = Some (PyInt 3), epochs = Some (PyFloat (3 / 4)),
     checkpoint_step = - 1, weight_prefix = ''weights/snapshot'', restore_optimizer = False,
     to_numpy = True, unwrap = False, model_name = ''grappa'', model_cfg = [],
     loss_dict = None, output_keys = None, ignore_keys = None, loader_len = 4,
     has_writer = False, model_state = [(''encoder.weight'', 5)], optimizer = 0,
     start_iteration = 0, log = []\<rparr>"

definition demo_files :: "(nat, nat) filesys" where
  "demo_files = \<lparr>files = (\<lambda>p. None), glob = (\<lambda>p. [])\<rparr>"

definition demo_tstep :: "(nat, nat) manager \<Rightarrow> int \<Rightarrow> (string \<times> nat) list \<times> nat" where
  "demo_tstep m i = (model_state m, optimizer m)"

text \<open>
  A model with the parameters \<open>a\<close>, \<open>b\<close>, \<open>c\<close> and a checkpoint file that holds only
  \<open>a\<close> and \<open>b\<close>.
\<close>

definition abc_manager :: "(nat, nat) manager" where
  "abc_manager = demo_manager\<lparr>train := False,
     model_state := [(''a'', 1), (''b'', 2), (''c'', 3)]\<rparr>"

definition ab_checkpoint :: "(nat, nat) checkpoint" where
  "ab_checkpoint = \<lparr>global_step = 9, state_dict = [(''a'', 10), (''b'', 20)],
     optimizer_state = 0\<rparr>"


text \<open>A file system in which the pattern \<open>weights/snapshot-*.ckpt\<close> matches one file.\<close>

definition glob_files :: "(nat, nat) filesys" where
  "glob_files = \<lparr>files = (\<lambda>p. if p = ''weights/snapshot-99.ckpt'' then Some ab_checkpoint else None),
     glob = (\<lambda>p. if p = ''weights/snapshot-*.ckpt'' then [''weights/snapshot-99.ckpt''] else [])\<rparr>"

text \<open>A model, not distributed, one of whose parameters lies in a sub-module named \<open>encoder_module\<close>.\<close>

definition module_manager :: "(nat, nat) manager" where
  "module_manager = demo_manager\<lparr>model_state := [(''encoder_module.weight'', 5)]\<rparr>"

text \<open>
  An inference manager that keeps only the output \<open>a\<close> and does not cast to numpy,
  and one that casts and filters nothing.
\<close>

definition keep_a_manager :: "(nat, nat) manager" where
  "keep_a_manager = demo_manager\<lparr>train := False, to_numpy := False,
     output_keys := Some [''a'']\<rparr>"









section \<open>The matcher: \<open>MatchProcessor.generate_matches\<close> (src/spine/post/evaluation/match.py)\<close>

text \<open>
  A reconstructed or true object, with the three attributes the matcher writes.
  \<open>payload\<close> stands for the rest of the object (its index set, its points). Numpy
  arrays of indices and of overlaps are lists; overlap scores are reals, of which
  only the order is used.
\<close>

record 'p matchable =
  payload :: 'p
  is_matched :: bool
  match :: "nat list"
  match_overlap :: "real list"

text \<open>\<open>np.where(row)[0]\<close>: the positions of the true entries, in increasing order.\<close>

definition where_true :: "bool list \<Rightarrow> nat list" where
  "where_true row = filter (\<lambda>j. row ! j) [0 ..< length row]"


text \<open>
  One function that meets the promise, to run examples with: the sort that keeps
  equal values in increasing position (numpy's \<open>kind='stable'\<close>).
\<close>

definition stable_argsort :: "real list \<Rightarrow> nat list" where
  "stable_argsort xs = sort_key (\<lambda>p. xs ! p) [0 ..< length xs]"

text \<open>
  Lines 196-200 for a source \<open>s\<close> whose row of the overlap matrix is \<open>row\<close> and whose
  valid targets are \<open>match_idxs\<close>: the overlaps of the valid targets, the permutation
  \<open>np.argsort(overlaps)[::-1]\<close>, and the three attributes written on \<open>s\<close>.
\<close>

definition store_matches ::
  "(real list \<Rightarrow> nat list) \<Rightarrow> 'p matchable \<Rightarrow> real list \<Rightarrow> nat list \<Rightarrow> 'p matchable" where
  "store_matches srt s row match_idxs =
     (let overlaps = map (\<lambda>j. row ! j) match_idxs;
          perm = rev (srt overlaps)
      in s\<lparr>is_matched := True,
            match := map (\<lambda>p. match_idxs ! p) perm,
            match_overlap := map (\<lambda>p. overlaps ! p) perm\<rparr>)"

text \<open>Lines 187-189 for a source without a valid target.\<close>

definition store_unmatched :: "'p matchable \<Rightarrow> 'p matchable" where
  "store_unmatched s = s\<lparr>is_matched := False, match := [], match_overlap := []\<rparr>"

text \<open>
  The loop of lines 182-204 from source number \<open>i\<close> on. It returns the source objects
  as the loop left them, and either the exception raised or the two lists built.

  In the branch of a source with valid targets, line 196 rebinds the name \<open>overlaps\<close>
  (the list to return) to the array of this source's overlaps, and line 203 reads
  \<open>truth_objs\<close>, a name that the function does not have (its parameter is
  \<open>target_objs\<close>): the branch writes the attributes of \<open>s\<close> and then raises
  \<open>NameError\<close>. A row index or a target index outside the arrays raises \<open>IndexError\<close>.
\<close>

fun generate_loop ::
  "(real list \<Rightarrow> nat list) \<Rightarrow> real list list \<Rightarrow> bool list list \<Rightarrow> nat \<Rightarrow> 'p matchable list
     \<Rightarrow> ('p matchable \<times> 'q option) list \<Rightarrow> real list
     \<Rightarrow> 'p matchable list \<times> (error + ('p matchable \<times> 'q option) list \<times> real list)" where
  "generate_loop srt ovl_matrix ovl_valid i [] pairs overlaps = ([], Inr (pairs, overlaps))"
| "generate_loop srt ovl_matrix ovl_valid i (s # rest) pairs overlaps =
     (if length ovl_valid \<le> i then (s # rest, Inl IndexError)
      else if where_true (ovl_valid ! i) = []
      then (case generate_loop srt ovl_matrix ovl_valid (i + 1) rest
                   (pairs @ [(store_unmatched s, None)]) (overlaps @ [- 1]) of
              (rest', r) \<Rightarrow> (store_unmatched s # rest', r))
      else if length ovl_matrix \<le> i
              \<or> list_ex (\<lambda>j. length (ovl_matrix ! i) \<le> j) (where_true (ovl_valid ! i))
      then (s # rest, Inl IndexError)
      else (store_matches srt s (ovl_matrix ! i) (where_true (ovl_valid ! i)) # rest,
            Inl (NameError ''name truth_objs is not defined'')))"

text \<open>
  \<open>generate_matches(source_objs, target_objs, prefix, suffix, ovl_matrix, ovl_valid)\<close>,
  for numpy's \<open>argsort\<close> being \<open>srt\<close>. The targets, \<open>prefix\<close> and \<open>suffix\<close> are never
  read.
\<close>

definition generate_matches ::
  "(real list \<Rightarrow> nat list) \<Rightarrow> 'p matchable list \<Rightarrow> 'q list \<Rightarrow> string \<Rightarrow> string
     \<Rightarrow> real list list \<Rightarrow> bool list list
     \<Rightarrow> 'p matchable list \<times> (error + ('p matchable \<times> 'q option) list \<times> real list)" where
  "generate_matches srt source_objs target_objs pre suf ovl_matrix ovl_valid =
     generate_loop srt ovl_matrix ovl_valid 0 source_objs [] []"

subsection \<open>Concrete matches\<close>

definition fresh_obj :: "nat \<Rightarrow> nat matchable" where
  "fresh_obj n = \<lparr>payload = n, is_matched = False, match = [], match_overlap = []\<rparr>"

text \<open>An object that carries the marks of an earlier match.\<close>

definition stale_obj :: "nat \<Rightarrow> nat matchable" where
  "stale_obj n = \<lparr>payload = n, is_matched = True, match = [5], match_overlap = [9 / 10]\<rparr>"

section \<open>Properties\<close>

subsection \<open>The run loop\<close>

lemma save_step_minus_one: "save_step i (- 1) = Inr True"
  by (simp add: save_step_def py_mod_def)

lemma num_val_sub_int: "num_val (num_sub_int a b) = num_val a - real_of_int b"
  by (cases a) simp_all

lemma py_range_min_negative:
  assumes "num_val a < 0"
  shows "py_range (py_min a (PyInt (int L))) = Inr [] \<or> (\<exists>err. py_range (py_min a (PyInt (int L))) = Inl err)"
proof -
  have "\<not> num_val (PyInt (int L)) < num_val a" using assms by simp
  then have eq: "py_min a (PyInt (int L)) = a" by (simp add: py_min_def)
  show ?thesis
  proof (cases a)
    case (PyInt i)
    then have "i < 0" using assms by simp
    then show ?thesis using eq PyInt by (simp add: py_range_def)
  next
    case (PyFloat r)
    then show ?thesis using eq by (simp add: py_range_def)
  qed
qed

lemma n_iterations_negative:
  assumes "iterations m = Some its" "num_val its < 0"
  shows "n_iterations m e = Inr 0 \<or> (\<exists>err. n_iterations m e = Inl err)"
proof -
  define b where "b = int e * int (loader_len m)"
  have "0 \<le> b" by (simp add: b_def)
  then have "num_val (num_sub_int its b) < 0"
    using assms(2) by (simp add: num_val_sub_int)
  from py_range_min_negative[OF this, of "loader_len m"] show ?thesis
    using assms(1) by (auto simp: n_iterations_def b_def)
qed

lemma run_iteration_manager_cfg:
  "iterations (rs_manager (fst (run_iteration tstep s))) = iterations (rs_manager s)"
  by (simp add: run_iteration_def Let_def split: sum.splits)

lemma run_epochs_negative:
  assumes "iterations (rs_manager s) = Some its" "num_val its < 0"
  shows "run_epochs tstep es s = (s, None) \<or> (\<exists>err. run_epochs tstep es s = (s, Some err))"
  using assms
proof (induction es)
  case Nil
  then show ?case by simp
next
  case (Cons e es)
  from n_iterations_negative[OF Cons.prems, of e] show ?case
  proof
    assume "n_iterations (rs_manager s) e = Inr 0"
    then show ?thesis using Cons by simp
  next
    assume "\<exists>err. n_iterations (rs_manager s) e = Inl err"
    then show ?thesis by auto
  qed
qed

lemma process_io_negative:
  assumes "iterations m = Some its" "num_val its < 0" "process_io m n w = Inr m'"
  shows "epochs m' = Some (PyInt 1) \<and> iterations m' = Some its"
  using assms by (auto simp: process_io_def Let_def split: if_splits)

text \<open>
  Claim C7. A negative \<open>iterations\<close> makes \<open>process_io\<close> set the epoch count to
  exactly 1, as the claim says. The run loop that follows does not run one epoch's
  worth of iterations: \<open>iterations\<close> stays negative, so
  \<open>min(self.iterations - e*len(self.loader), len(self.loader))\<close> is negative in every
  epoch, and \<open>run\<close> executes no iteration at all, whatever the loader's size.
\<close>

theorem negative_iterations_runs_nothing:
  assumes "iterations m = Some its" "num_val its < 0" "process_io m n w = Inr m'"
  shows "epochs m' = Some (PyInt 1) \<and> stepped (rs_trace (fst (run tstep m' fs))) = []"
proof -
  from process_io_negative[OF assms] have ep: "epochs m' = Some (PyInt 1)" and it: "iterations m' = Some its"
    by simp_all
  define s0 where "s0 = \<lparr>rs_manager = m', rs_files = fs, rs_trace = [],
     rs_iteration = (if train m' then start_iteration m' else 0)\<rparr>"
  have its0: "iterations (rs_manager s0) = Some its" by (simp add: s0_def it)
  have "rs_trace (fst (run tstep m' fs)) = []"
  proof (cases "py_truediv (real_of_int (if train m' then start_iteration m' else 0))
                  (real (loader_len m') / real (world_size m'))")
    case (Inl e)
    then show ?thesis by (simp add: run_def Let_def ep)
  next
    case (Inr q)
    have "run tstep m' fs = run_epochs tstep [0 ..< nat \<lceil>num_val (PyInt 1) - q\<rceil>] s0"
      using Inr by (simp add: run_def Let_def ep s0_def)
    moreover have "rs_trace (fst (run_epochs tstep [0 ..< nat \<lceil>num_val (PyInt 1) - q\<rceil>] s0)) = rs_trace s0"
      using run_epochs_negative[OF its0 assms(2), of tstep "[0 ..< nat \<lceil>num_val (PyInt 1) - q\<rceil>]"]
      by auto
    ultimately show ?thesis by (simp add: s0_def)
  qed
  then show ?thesis using ep by (simp add: stepped_def)
qed

theorem negative_iterations_runs_nothing_witness:
  "process_io (demo_manager\<lparr>iterations := Some (PyInt (- 1)), epochs := None, train := False\<rparr>)
       8 False
     = Inr (demo_manager\<lparr>iterations := Some (PyInt (- 1)), epochs := Some (PyInt 1),
                         train := False, loader_len := 8\<rparr>)
   \<and> stepped (rs_trace (fst (run demo_tstep
        (demo_manager\<lparr>iterations := Some (PyInt (- 1)), epochs := Some (PyInt 1),
                       train := False, loader_len := 8\<rparr>) demo_files))) = []"
proof -
  have io: "process_io (demo_manager\<lparr>iterations := Some (PyInt (- 1)), epochs := None, train := False\<rparr>)
       8 False
     = Inr (demo_manager\<lparr>iterations := Some (PyInt (- 1)), epochs := Some (PyInt 1),
                         train := False, loader_len := 8\<rparr>)"
    by (simp add: process_io_def demo_manager_def Let_def)
  have "iterations (demo_manager\<lparr>iterations := Some (PyInt (- 1)), epochs := None, train := False\<rparr>)
      = Some (PyInt (- 1))" by simp
  moreover have "num_val (PyInt (- 1)) < 0" by simp
  ultimately show ?thesis
    using negative_iterations_runs_nothing[OF _ _ io, of "PyInt (- 1)" demo_tstep demo_files] io
    by simp
qed



lemma stepped_append: "stepped (xs @ ys) = stepped xs @ stepped ys"
  by (simp add: stepped_def)

lemma saved_append: "saved (xs @ ys) = saved xs @ saved ys"
  by (simp add: saved_def)

lemma stepped_simps:
  "stepped [] = []" "stepped (TrainStep i # tr) = i # stepped tr"
  "stepped (SaveState i # tr) = stepped tr" "stepped (WriteOut i # tr) = stepped tr"
  "stepped (LogRecord i # tr) = stepped tr"
  by (simp_all add: stepped_def)

lemma saved_simps:
  "saved [] = []" "saved (TrainStep i # tr) = saved tr"
  "saved (SaveState i # tr) = i # saved tr" "saved (WriteOut i # tr) = saved tr"
  "saved (LogRecord i # tr) = saved tr"
  by (simp_all add: saved_def)

lemma run_iteration_saves:
  assumes "every_step_saved p s" "p \<noteq> []"
  shows "snd (run_iteration tstep s) = None \<and> every_step_saved p (fst (run_iteration tstep s))
         \<and> stepped (rs_trace (fst (run_iteration tstep s))) = stepped (rs_trace s) @ [rs_iteration s]"
  using assms
  by (auto simp: every_step_saved_def run_iteration_def Let_def save_step_minus_one
      save_state_def stepped_append saved_append stepped_simps saved_simps list_all_iff)

lemma run_iterations_saves:
  assumes "every_step_saved p s" "p \<noteq> []"
  shows "snd (run_iterations tstep n s) = None \<and> every_step_saved p (fst (run_iterations tstep n s))"
  using assms
proof (induction n arbitrary: s)
  case 0
  then show ?case by simp
next
  case (Suc n)
  obtain s' e where r: "run_iteration tstep s = (s', e)" by (cases "run_iteration tstep s")
  with run_iteration_saves[OF Suc.prems, of tstep] have "e = None" "every_step_saved p s'" by simp_all
  with Suc.IH[of s'] Suc.prems(2) r show ?case by simp
qed

lemma run_epochs_saves:
  assumes "every_step_saved p s" "p \<noteq> []"
  shows "every_step_saved p (fst (run_epochs tstep es s))"
  using assms
proof (induction es arbitrary: s)
  case Nil
  then show ?case by simp
next
  case (Cons e es)
  show ?case
  proof (cases "n_iterations (rs_manager s) e")
    case (Inl err)
    then show ?thesis using Cons.prems by simp
  next
    case (Inr n)
    obtain s' r where rr: "run_iterations tstep n s = (s', r)" by (cases "run_iterations tstep n s")
    with run_iterations_saves[OF Cons.prems, of tstep n] have "r = None" "every_step_saved p s'" by simp_all
    with Cons.IH[of s'] Cons.prems(2) rr Inr show ?thesis by simp
  qed
qed

text \<open>
  Claim C10. With the default cadence \<open>-1\<close> the test
  \<open>((iteration + 1) % -1) == 0\<close> is true at every iteration. So a run in train mode on
  the coordinating process (with a weight prefix) saves at every iteration it runs, and
  each of these iterations leaves its checkpoint file behind. The error \<open>run\<close> may end
  with does not matter: the statement is about the state it reached.
\<close>

theorem default_cadence_saves_every_iteration:
  assumes "train m" "main_process m" "checkpoint_step m = checkpoint_step_default"
    and "weight_prefix m \<noteq> []"
  shows "save_step i checkpoint_step_default = Inr True
       \<and> saved (rs_trace (fst (run tstep m fs))) = stepped (rs_trace (fst (run tstep m fs)))
       \<and> list_all (\<lambda>k. files (rs_files (fst (run tstep m fs))) (ckpt_name (weight_prefix m) k) \<noteq> None)
            (stepped (rs_trace (fst (run tstep m fs))))"
proof -
  define s0 where "s0 = \<lparr>rs_manager = m, rs_files = fs, rs_trace = [],
     rs_iteration = (if train m then start_iteration m else 0)\<rparr>"
  have inv0: "every_step_saved (weight_prefix m) s0"
    using assms by (simp add: every_step_saved_def s0_def checkpoint_step_default_def stepped_simps saved_simps)
  have "every_step_saved (weight_prefix m) (fst (run tstep m fs))"
  proof (cases "epochs m")
    case None
    then show ?thesis using inv0 by (simp add: run_def Let_def s0_def)
  next
    case (Some ep)
    show ?thesis
    proof (cases "py_truediv (real_of_int (if train m then start_iteration m else 0))
                  (real (loader_len m) / real (world_size m))")
      case (Inl e)
      then show ?thesis using inv0 Some by (simp add: run_def Let_def s0_def)
    next
      case (Inr q)
      have "run tstep m fs = run_epochs tstep [0 ..< nat \<lceil>num_val ep - q\<rceil>] s0"
        using Inr Some by (simp add: run_def Let_def s0_def)
      then show ?thesis using run_epochs_saves[OF inv0 assms(4)] by simp
    qed
  qed
  then show ?thesis
    by (simp add: every_step_saved_def save_step_minus_one checkpoint_step_default_def)
qed

lemma demo_run_stepped: "stepped (rs_trace (fst (run demo_tstep demo_manager demo_files))) = [0, 1, 2]"
  by (simp add: run_def demo_manager_def demo_files_def demo_tstep_def py_truediv_def Let_def
      n_iterations_def py_min_def py_range_def run_iteration_def save_step_def py_mod_def
      save_state_def stepped_def upt_rec numeral_nat)

theorem default_cadence_saves_every_iteration_witness:
  "saved (rs_trace (fst (run demo_tstep demo_manager demo_files))) = [0, 1, 2]"
proof -
  have "train demo_manager" "main_process demo_manager"
    "checkpoint_step demo_manager = checkpoint_step_default" "weight_prefix demo_manager \<noteq> []"
    by (simp_all add: demo_manager_def checkpoint_step_default_def)
  from default_cadence_saves_every_iteration[OF this, of 0 demo_tstep demo_files]
  show ?thesis by (simp add: demo_run_stepped)
qed

subsection \<open>Loading and saving weights\<close>


lemma py_replace_absent:
  "old \<noteq> [] \<Longrightarrow> \<not> str_contains s old \<Longrightarrow> py_replace s old new = s"
  by (induction s) auto










lemma find_model_paths_Nil: "find_model_paths [] acc = Inr acc"
  by (simp add: find_model_paths.simps)

text \<open>
  Claim C6, as amended. For a weight path that is not an existing file, the loop of
  \<open>load_weights\<close> skips the entry and goes on with the rest exactly when the run is
  not in train mode and \<open>glob.glob\<close> of the path is not empty; in train mode, and when
  the glob expands to nothing (a literal missing path included), it raises and leaves
  the manager as it was.
\<close>

theorem missing_weight_file:
  assumes "\<not> isfile fs model_path"
  shows "load_modules fs ((mname, model_path, store_name) # rest) m =
     (if \<not> train m \<and> glob fs model_path \<noteq> [] then load_modules fs rest m
      else (m, Some (ValueError
              (''Weight file not found for module '' @ mname @ '': '' @ model_path))))"
  using assms by (simp add: isfile_def load_module_def)

theorem missing_weight_file_witness:
  "\<not> isfile glob_files ''weights/snapshot-*.ckpt''
   \<and> load_modules glob_files [(''grappa'', ''weights/snapshot-*.ckpt'', [])] abc_manager
       = (abc_manager, None)"
proof -
  have nf: "\<not> isfile glob_files ''weights/snapshot-*.ckpt''"
    by (simp add: isfile_def glob_files_def)
  have "\<not> train abc_manager" by (simp add: abc_manager_def)
  moreover have "glob glob_files ''weights/snapshot-*.ckpt'' \<noteq> []"
    by (simp add: glob_files_def)
  ultimately show ?thesis
    using missing_weight_file[OF nf, of "''grappa''" "[]" "[]" abc_manager] nf by simp
qed

text \<open>
  Claim C6 as stated fails: in inference mode a glob pattern that expands to zero
  files is not skipped, it is fatal.
\<close>

theorem empty_glob_is_fatal:
  "\<not> train abc_manager
   \<and> \<not> isfile demo_files ''weights/snapshot-*.ckpt''
   \<and> glob demo_files ''weights/snapshot-*.ckpt'' = []
   \<and> snd (load_weights demo_files abc_manager (Some ''weights/snapshot-*.ckpt''))
       = Some (ValueError ''Weight file not found for module grappa: weights/snapshot-*.ckpt'')"
  by (simp add: abc_manager_def demo_manager_def demo_files_def isfile_def load_weights_def
      find_model_paths_Nil load_module_def)

text \<open>
  Claim C5. The round trip fails for a model that is not distributed and has a
  parameter whose name contains \<open>module.\<close> elsewhere than at its head: line 442
  removes every occurrence of \<open>module.\<close> from the stored keys (the comment above it
  speaks of the leading keyword only), so \<open>encoder_module.weight\<close> is looked up as
  \<open>encoder_weight\<close>, reported missing, and the load raises. Nothing is restored and the
  start iteration is not \<open>k + 1\<close>.
\<close>

theorem module_in_name_breaks_round_trip:
  "snd (save_then_load module_manager demo_files 7 [(''encoder_module.weight'', 0)])
     = Some (ValueError ''To be loaded, a set of weights must provide all necessary parameters.'')
   \<and> model_state (fst (save_then_load module_manager demo_files 7 [(''encoder_module.weight'', 0)]))
       = [(''encoder_module.weight'', 0)]
   \<and> start_iteration (fst (save_then_load module_manager demo_files 7 [(''encoder_module.weight'', 0)]))
       = 0"
  by (simp add: save_then_load_def save_state_def module_manager_def demo_manager_def
      demo_files_def load_weights_def find_model_paths_Nil load_module_def ckpt_name_def
      needed_weights_def strip_module_def dict_of_items_def missing_top_def dict_keys_def
      Let_def)

text \<open>
  The rest of claim C5 holds on the code: loading for a sub-module leaves the start
  iteration as it is, and the round trip succeeds for a model that is distributed or
  has no parameter name containing \<open>module.\<close> (with no sub-module paths configured).
\<close>

lemma submodule_keeps_start_iteration:
  assumes "mname \<noteq> model_name m"
  shows "start_iteration (fst (load_module fs m (mname, model_path, store_name))) = start_iteration m"
  using assms by (simp add: load_module_def Let_def split: option.splits)

lemma update_new_key:
  "k \<notin> fst ` set acc \<Longrightarrow> AList.update k v acc = acc @ [(k, v)]"
  by (induction acc) auto

lemma fold_update_distinct:
  "distinct (map fst (acc @ kvs)) \<Longrightarrow>
   foldl (\<lambda>d (k, v). AList.update k v d) acc kvs = acc @ kvs"
proof (induction kvs arbitrary: acc)
  case Nil
  then show ?case by simp
next
  case (Cons kv kvs)
  obtain k v where kv: "kv = (k, v)" by (cases kv)
  from Cons.prems kv have new: "k \<notin> fst ` set acc" by auto
  have d: "distinct (map fst ((acc @ [(k, v)]) @ kvs))" using Cons.prems kv by simp
  show ?case using Cons.IH[OF d] new kv by (simp add: update_new_key)
qed

lemma dict_of_items_distinct: "distinct (map fst kvs) \<Longrightarrow> dict_of_items kvs = kvs"
  using fold_update_distinct[of "[]" kvs] by (simp add: dict_of_items_def)

lemma strip_module_plain:
  assumes "distinct (map fst sd)" "\<forall>n\<in>set (map fst sd). \<not> str_contains n ''module.''"
  shows "strip_module sd = sd"
proof -
  have "map (\<lambda>(k, v). (py_replace k ''module.'' [], v)) sd = sd"
    using assms(2) by (intro map_idI) (auto simp: py_replace_absent)
  then show ?thesis using assms(1) by (simp add: strip_module_def dict_of_items_distinct)
qed

lemma load_state_dict_same_names:
  assumes "distinct (map fst sd)" "map fst model = map fst sd"
  shows "load_state_dict model sd = (sd, [])"
proof -
  have len: "length model = length sd" using assms(2) by (metis length_map)
  have "map (\<lambda>(n, v). (n, case map_of sd n of None \<Rightarrow> v | Some w \<Rightarrow> w)) model = sd"
  proof (rule nth_equalityI)
    show "length (map (\<lambda>(n, v). (n, case map_of sd n of None \<Rightarrow> v | Some w \<Rightarrow> w)) model) = length sd"
      using len by simp
  next
    fix i assume "i < length (map (\<lambda>(n, v). (n, case map_of sd n of None \<Rightarrow> v | Some w \<Rightarrow> w)) model)"
    then have i: "i < length sd" using len by simp
    have "fst (model ! i) = fst (sd ! i)"
      using assms(2) i len by (metis nth_map)
    moreover have "map_of sd (fst (sd ! i)) = Some (snd (sd ! i))"
      using assms(1) i by simp
    ultimately show "map (\<lambda>(n, v). (n, case map_of sd n of None \<Rightarrow> v | Some w \<Rightarrow> w)) model ! i = sd ! i"
      using i len by (simp add: case_prod_beta prod_eq_iff)
  qed
  moreover have "filter (\<lambda>k. k \<notin> set (dict_keys model)) (dict_keys sd) = []"
    using assms(2) by (simp add: dict_keys_def)
  ultimately show ?thesis by (simp add: load_state_dict_def)
qed

lemma round_trip_plain_names:
  assumes "weight_prefix m \<noteq> []" "model_cfg m = []"
    and "distinct (map fst (model_state m))" "map fst fresh = map fst (model_state m)"
    and "distributed m \<or> (\<forall>n\<in>set (map fst (model_state m)). \<not> str_contains n ''module.'')"
  shows "snd (save_then_load m fs k fresh) = None
       \<and> model_state (fst (save_then_load m fs k fresh)) = model_state m
       \<and> start_iteration (fst (save_then_load m fs k fresh)) = k + 1"
proof -
  define sd where "sd = (if \<not> distributed m then strip_module (model_state m) else model_state m)"
  have sd: "sd = model_state m"
    using assms(3,5) by (auto simp: sd_def strip_module_plain)
  have miss: "missing_top fresh sd = []"
    using assms(4) by (simp add: missing_top_def dict_keys_def sd)
  have ld: "load_state_dict fresh sd = (model_state m, [])"
    using load_state_dict_same_names[of sd fresh] assms(3,4) by (simp add: sd)
  have nm: "ckpt_name (weight_prefix m) k \<noteq> []" by (simp add: ckpt_name_def)
  show ?thesis
    using assms(1,2) miss ld nm
    by (simp add: save_then_load_def save_state_def load_weights_def find_model_paths.simps
        load_module_def needed_weights_def Let_def sd_def)
qed

subsection \<open>The batch step\<close>

lemma process_model_rejects_both:
  "truthy keep \<and> truthy ign \<Longrightarrow>
   process_model m keep ign
     = Inl (AssertionError ''Should not specify `keep_output` and `ignore_keys` together.'')"
  by (simp add: process_model_def)

lemma step_loop_filtered_raises:
  assumes "\<not> to_numpy m" "list_ex (\<lambda>kv. filtered m (fst kv)) its"
  shows "step_loop m its result = Raises (RuntimeError ''dictionary changed size during iteration'')"
  using assms
proof (induction its arbitrary: result)
  case Nil
  then show ?case by simp
next
  case (Cons kv its)
  obtain k v where kv: "kv = (k, v)" by (cases kv)
  show ?case
  proof (cases "filtered m k")
    case True
    then show ?thesis using Cons.prems(1) kv by simp
  next
    case False
    with Cons.prems kv have "list_ex (\<lambda>kv. filtered m (fst kv)) its" by simp
    from Cons.IH[OF Cons.prems(1) this] False Cons.prems(1) kv show ?thesis by simp
  qed
qed

text \<open>
  Claim C8. \<open>process_model\<close> refuses an allow-list and a deny-list given together, as
  the claim says (\<open>process_model_rejects_both\<close>). The filter of \<open>step\<close> does not leave
  the filtered mapping behind: it pops the key from the dict it is iterating over.
  With \<open>to_numpy\<close> off, as soon as one key of the result is to be filtered out the
  call raises \<open>RuntimeError\<close> instead of returning.
\<close>

theorem filtering_a_key_raises:
  assumes "\<not> to_numpy m" "forward_result m fwd loss_out = Inr result"
    and "list_ex (\<lambda>kv. filtered m (fst kv)) result"
  shows "step m fwd loss_out = Raises (RuntimeError ''dictionary changed size during iteration'')"
  using assms by (simp add: step_def step_loop_filtered_raises)

theorem filtering_a_key_raises_witness:
  "process_model (demo_manager\<lparr>train := False, to_numpy := False\<rparr>) (Some [''a'']) None
     = Inr keep_a_manager
   \<and> step keep_a_manager [(''a'', Scalar (PyFloat 1) :: nat pyval), (''b'', Scalar (PyFloat 2))] []
     = Raises (RuntimeError ''dictionary changed size during iteration'')"
proof -
  have 1: "\<not> to_numpy keep_a_manager" by (simp add: keep_a_manager_def)
  have 2: "forward_result keep_a_manager
      [(''a'', Scalar (PyFloat 1) :: nat pyval), (''b'', Scalar (PyFloat 2))] []
      = Inr [(''a'', Scalar (PyFloat 1)), (''b'', Scalar (PyFloat 2))]"
    by (simp add: forward_result_def keep_a_manager_def demo_manager_def)
  have 3: "list_ex (\<lambda>kv. filtered keep_a_manager (fst kv))
      [(''a'', Scalar (PyFloat 1) :: nat pyval), (''b'', Scalar (PyFloat 2))]"
    by (simp add: filtered_def keep_a_manager_def demo_manager_def)
  have 4: "process_model (demo_manager\<lparr>train := False, to_numpy := False\<rparr>) (Some [''a'']) None
     = Inr keep_a_manager"
    by (simp add: process_model_def keep_a_manager_def demo_manager_def)
  from filtering_a_key_raises[OF 1 2 3] 4 show ?thesis by simp
qed







subsection \<open>The distributed aggregation\<close>











lemma non_coordinating_process_merges_nothing:
  fixes all_data all_result :: "(string \<times> 'a gval) list list"
  assumes "distributed m" "\<not> main_process m"
    and "list_all (\<lambda>k. column all_data k \<noteq> None) data_keys"
    and "list_all (\<lambda>k. column all_result k \<noteq> None) result_keys"
    and "0 < world_size m"
  shows "write_output m data_keys result_keys data result all_data all_result = Inr ([], [])"
proof -
  have g: "merge_gathered k (replicate (world_size m) (GNone :: 'a gval)) = Inr None" for k
    using assms(5) by (cases "world_size m") (simp_all add: merge_gathered_def)
  have a: "aggregate m ks ranks acc = Inr acc"
    if "list_all (\<lambda>k. column ranks k \<noteq> None) ks"
    for ks acc and ranks :: "(string \<times> 'a gval) list list"
    using that by (induction ks) (auto simp: gather_object_def g assms(2))
  show ?thesis using assms(1) a[OF assms(3)] a[OF assms(4)] by (simp add: write_output_def)
qed

subsection \<open>The matcher\<close>









lemma generate_loop_stops:
  assumes "i + length ss = length val" "length mat = length val"
    and "\<forall>r<length val. length (val ! r) \<le> length (mat ! r)"
    and "\<exists>r. i \<le> r \<and> r < length val \<and> where_true (val ! r) \<noteq> []"
  shows "snd (generate_loop srt mat val i ss pairs ovs)
           = Inl (NameError ''name truth_objs is not defined'')"
  using assms
proof (induction ss arbitrary: i pairs ovs)
  case Nil
  then show ?case by auto
next
  case (Cons s ss)
  from Cons.prems(1) have i: "i < length val" by simp
  show ?case
  proof (cases "where_true (val ! i) = []")
    case True
    from Cons.prems(4) obtain r where r: "i \<le> r" "r < length val" "where_true (val ! r) \<noteq> []"
      by blast
    with True have "i + 1 \<le> r" by (cases "r = i") auto
    with r have ex: "\<exists>r. i + 1 \<le> r \<and> r < length val \<and> where_true (val ! r) \<noteq> []" by blast
    have len: "(i + 1) + length ss = length val" using Cons.prems(1) by simp
    from Cons.IH[OF len Cons.prems(2) Cons.prems(3) ex] True i show ?thesis
      by (simp split: prod.splits) (metis snd_conv)
  next
    case False
    have "\<not> list_ex (\<lambda>j. length (mat ! i) \<le> j) (where_true (val ! i))"
    proof -
      have "length (val ! i) \<le> length (mat ! i)" using Cons.prems(3) i by simp
      then show ?thesis by (auto simp: list_ex_iff where_true_def)
    qed
    then show ?thesis using False i Cons.prems(2) by simp
  qed
qed

text \<open>
  Claim C2. On arrays of the documented shapes, as soon as one source has a valid
  target the call raises \<open>NameError\<close> and returns no pair list, so a source without a
  valid target gets no \<open>(source, None)\<close> record, and one that comes after the matched
  source is not even marked. (When no source at all has a valid target the call does
  what the claim says: \<open>no_valid_target_anywhere\<close> below.)
\<close>

theorem valid_target_stops_the_loop:
  assumes "length ovl_valid = length source_objs" "length ovl_matrix = length source_objs"
    and "\<forall>r<length source_objs. length (ovl_valid ! r) \<le> length (ovl_matrix ! r)"
    and "\<exists>r<length source_objs. where_true (ovl_valid ! r) \<noteq> []"
  shows "snd (generate_matches srt source_objs target_objs pre suf ovl_matrix ovl_valid)
          = Inl (NameError ''name truth_objs is not defined'')"
proof -
  have 1: "0 + length source_objs = length ovl_valid" using assms(1) by simp
  have 2: "length ovl_matrix = length ovl_valid" using assms(1,2) by simp
  have 3: "\<forall>r<length ovl_valid. length (ovl_valid ! r) \<le> length (ovl_matrix ! r)"
    using assms(1,3) by simp
  have 4: "\<exists>r. 0 \<le> r \<and> r < length ovl_valid \<and> where_true (ovl_valid ! r) \<noteq> []"
    using assms(1,4) by auto
  show ?thesis unfolding generate_matches_def by (rule generate_loop_stops[OF 1 2 3 4])
qed

theorem valid_target_stops_the_loop_witness:
  "generate_matches stable_argsort [fresh_obj 0, stale_obj 1] [10 :: nat] [] []
       [[1 / 2], [0]] [[True], [False]]
     = ([\<lparr>payload = 0, is_matched = True, match = [0], match_overlap = [1 / 2]\<rparr>, stale_obj 1],
        Inl (NameError ''name truth_objs is not defined''))"
proof -
  have s: "snd (generate_matches stable_argsort [fresh_obj 0, stale_obj 1] [10 :: nat] [] []
             [[1 / 2], [0]] [[True], [False]])
      = Inl (NameError ''name truth_objs is not defined'')"
  proof (rule valid_target_stops_the_loop)
    show "length [[True], [False]] = length [fresh_obj 0, stale_obj 1]" by simp
    show "length [[1 / 2], [0 :: real]] = length [fresh_obj 0, stale_obj 1]" by simp
    show "\<forall>r<length [fresh_obj 0, stale_obj 1].
        length ([[True], [False]] ! r) \<le> length ([[1 / 2], [0 :: real]] ! r)"
      by (simp add: less_Suc_eq)
    have "where_true ([[True], [False]] ! 0) \<noteq> []" by (simp add: where_true_def)
    then show "\<exists>r<length [fresh_obj 0, stale_obj 1]. where_true ([[True], [False]] ! r) \<noteq> []"
      by (intro exI[of _ 0]) simp
  qed
  have f: "fst (generate_matches stable_argsort [fresh_obj 0, stale_obj 1] [10 :: nat] [] []
             [[1 / 2], [0]] [[True], [False]])
      = [\<lparr>payload = 0, is_matched = True, match = [0], match_overlap = [1 / 2]\<rparr>, stale_obj 1]"
    by (simp add: generate_matches_def where_true_def store_matches_def stable_argsort_def
        fresh_obj_def)
  from s f show ?thesis by (simp add: prod_eq_iff)
qed

lemma generate_loop_all_unmatched:
  assumes "i + length ss = length val" "\<forall>r<length val. i \<le> r \<longrightarrow> where_true (val ! r) = []"
  shows "generate_loop srt mat val i ss pairs ovs
     = (map store_unmatched ss,
        Inr (pairs @ map (\<lambda>s. (store_unmatched s, None)) ss, ovs @ replicate (length ss) (- 1)))"
  using assms
proof (induction ss arbitrary: i pairs ovs)
  case Nil
  then show ?case by simp
next
  case (Cons s ss)
  from Cons.prems(1) have i: "i < length val" by simp
  with Cons.prems(2) have e: "where_true (val ! i) = []" by simp
  have len: "(i + 1) + length ss = length val" using Cons.prems(1) by simp
  have rest: "\<forall>r<length val. i + 1 \<le> r \<longrightarrow> where_true (val ! r) = []"
    using Cons.prems(2) by simp
  show ?case using Cons.IH[OF len rest] i e by (simp add: replicate_app_Cons_same)
qed

lemma no_valid_target_anywhere:
  assumes "length ovl_valid = length source_objs"
    and "\<forall>r<length source_objs. where_true (ovl_valid ! r) = []"
  shows "generate_matches srt source_objs target_objs pre suf ovl_matrix ovl_valid
     = (map store_unmatched source_objs,
        Inr (map (\<lambda>s. (store_unmatched s, None)) source_objs,
             replicate (length source_objs) (- 1)))"
  using generate_loop_all_unmatched[of 0 source_objs ovl_valid srt ovl_matrix "[]" "[]"] assms
  by (simp add: generate_matches_def)

end
